theory Spec2Isabelle
  imports Main "HOL-Library.Word"
begin

section \<open>Data model of mp4dovi.go\<close>

text \<open>
  A byte is a \<^typ>\<open>char\<close> (8 bits); a Go string and a file are byte lists.
  \<^verbatim>\<open>type FourCC [4]byte\<close> and \<^verbatim>\<open>type BoxType FourCC\<close> are arrays of
  exactly four bytes, so the type has one constructor with four fields.
\<close>

type_synonym byte = char

datatype FourCC = FourCC byte byte byte byte

type_synonym BoxType = FourCC

fun bytes_of :: "FourCC \<Rightarrow> byte list" where
  "bytes_of (FourCC a b c d) = [a, b, c, d]"

definition MoovBoxType :: BoxType where
  "MoovBoxType = FourCC (CHR ''m'') (CHR ''o'') (CHR ''o'') (CHR ''v'')"

definition TrakBoxType :: BoxType where
  "TrakBoxType = FourCC (CHR ''t'') (CHR ''r'') (CHR ''a'') (CHR ''k'')"

definition MdiaBoxType :: BoxType where
  "MdiaBoxType = FourCC (CHR ''m'') (CHR ''d'') (CHR ''i'') (CHR ''a'')"

definition MinfBoxType :: BoxType where
  "MinfBoxType = FourCC (CHR ''m'') (CHR ''i'') (CHR ''n'') (CHR ''f'')"

definition StblBoxType :: BoxType where
  "StblBoxType = FourCC (CHR ''s'') (CHR ''t'') (CHR ''b'') (CHR ''l'')"

definition StsdBoxType :: BoxType where
  "StsdBoxType = FourCC (CHR ''s'') (CHR ''t'') (CHR ''s'') (CHR ''d'')"

text \<open>
  \<^verbatim>\<open>type Header struct { Size uint32; Type BoxType; ExtendedSize uint64 }\<close>.
  A Go \<^verbatim>\<open>int64\<close> is a \<^typ>\<open>64 word\<close> read with \<^const>\<open>sint\<close>, so that the
  conversions \<^verbatim>\<open>int64(x)\<close> and \<^verbatim>\<open>uint64(x)\<close> between the two 64-bit types are
  the identity on the bits.
\<close>

record Header =
  Size :: "32 word"
  Type :: BoxType
  ExtendedSize :: "64 word"

text \<open>The package variables \<^verbatim>\<open>codecFrom\<close>, \<^verbatim>\<open>codecTo\<close> and \<^verbatim>\<open>verbose\<close>.\<close>

record config =
  codecFrom :: string
  codecTo :: string
  verbose :: bool

definition getBoxSize :: "Header \<Rightarrow> 64 word" where
  "getBoxSize header = (if Size header = 1 then ExtendedSize header else ucast (Size header))"

definition getHeaderSize :: "Header \<Rightarrow> 64 word" where
  "getHeaderSize header = (if Size header = 1 then 16 else 8)"

definition getHeaderTypeOffset :: "Header \<Rightarrow> 64 word" where
  "getHeaderTypeOffset header = (if Size header = 1 then - 12 else - 4)"

section \<open>The open file and standard output\<close>

text \<open>
  Errors are values. \<open>Wrap msg e\<close> is \<^verbatim>\<open>fmt.Errorf(msg + ": %w", e)\<close>;
  \<open>CannotFind t\<close> is the error of line 100, \<^verbatim>\<open>cannot find box "t"\<close>.
  \<open>EOF\<close> and \<open>ErrUnexpectedEOF\<close> are the two errors of \<^verbatim>\<open>io.ReadFull\<close>,
  \<open>EINVAL\<close> is the error of a seek to a position that is negative or not an
  \<^verbatim>\<open>int64\<close>, \<open>ENOENT\<close> the error of opening a file that is not there.
\<close>

datatype error =
    EOF
  | ErrUnexpectedEOF
  | EINVAL
  | ENOENT
  | CannotFind BoxType
  | Wrap string error

text \<open>What the program prints: one event for each \<^verbatim>\<open>fmt.Printf\<close> of the source.\<close>

datatype event =
    Processing string
  | FindHeader_inspecting BoxType "64 word"
  | FindHeader_found BoxType "64 word"
  | ForEachBox_inspecting BoxType "64 word"
  | Changed_codec string string

text \<open>
  The state of the run on one open file: the bytes of the file, the cursor of the file
  descriptor, and what has been printed so far.
\<close>

record iostate =
  content :: "byte list"
  pos :: nat
  printed :: "event list"

type_synonym 'a result = "(error + 'a) \<times> iostate"

definition printf :: "event \<Rightarrow> iostate \<Rightarrow> iostate" where
  "printf e s = s\<lparr>printed := printed s @ [e]\<rparr>"

datatype whence = SeekStart | SeekCurrent

text \<open>
  \<^verbatim>\<open>(*os.File).Seek(offset, whence)\<close>: the new cursor is the base plus the signed
  offset; it may lie beyond the end of the file; the call fails, and leaves the cursor,
  when the new cursor is negative or does not fit an \<^verbatim>\<open>int64\<close>.
\<close>

definition seek :: "64 word \<Rightarrow> whence \<Rightarrow> iostate \<Rightarrow> (64 word) result" where
  "seek offset wh s =
     (let base = (case wh of SeekStart \<Rightarrow> 0 | SeekCurrent \<Rightarrow> int (pos s));
          new = base + sint offset
      in if new < 0 \<or> 2 ^ 63 \<le> new then (Inl EINVAL, s)
         else (Inr (word_of_int new), s\<lparr>pos := nat new\<rparr>))"

text \<open>
  \<^verbatim>\<open>io.ReadFull\<close> of \<open>n\<close> bytes at the cursor, as \<^verbatim>\<open>binary.Read\<close> calls it:
  \<open>EOF\<close> when no byte is left, \<open>ErrUnexpectedEOF\<close> when fewer than \<open>n\<close> are left
  (the cursor is then at the end of the file).
\<close>

definition readFull :: "nat \<Rightarrow> iostate \<Rightarrow> (byte list) result" where
  "readFull n s =
     (let avail = drop (pos s) (content s)
      in if avail = [] then (Inl EOF, s)
         else if length avail < n then (Inl ErrUnexpectedEOF, s\<lparr>pos := length (content s)\<rparr>)
         else (Inr (take n avail), s\<lparr>pos := pos s + n\<rparr>))"

text \<open>
  \<^verbatim>\<open>(*os.File).Write\<close> at the cursor of a file opened \<^verbatim>\<open>O_RDWR\<close>: the bytes
  replace what is there and extend the file where they pass its end (a gap between the
  end and the cursor reads as zero bytes); writing no byte does nothing.
\<close>

definition fileWrite :: "byte list \<Rightarrow> iostate \<Rightarrow> unit result" where
  "fileWrite bs s =
     (if bs = [] then (Inr (), s)
      else (Inr (),
        s\<lparr>content := take (pos s) (content s) @ replicate (pos s - length (content s)) (CHR 0x00)
                       @ bs @ drop (pos s + length bs) (content s),
          pos := pos s + length bs\<rparr>))"

text \<open>Big-endian reading of an unsigned integer (\<^verbatim>\<open>binary.BigEndian\<close>).\<close>

definition be_uint :: "byte list \<Rightarrow> nat" where
  "be_uint bs = foldl (\<lambda>a c. a * 256 + of_char c) 0 bs"

definition fourcc_of :: "byte list \<Rightarrow> FourCC" where
  "fourcc_of bs = FourCC (bs ! 0) (bs ! 1) (bs ! 2) (bs ! 3)"

section \<open>Reading a box header\<close>

definition readBoxHeader :: "iostate \<Rightarrow> Header result" where
  "readBoxHeader r =
     (case readFull 4 r of
        (Inl err, r1) \<Rightarrow> (Inl err, r1)
      | (Inr b1, r1) \<Rightarrow>
          (case readFull 4 r1 of
             (Inl err, r2) \<Rightarrow> (Inl err, r2)
           | (Inr b2, r2) \<Rightarrow>
               (if (of_nat (be_uint b1) :: 32 word) = 1 then
                  (case readFull 8 r2 of
                     (Inl err, r3) \<Rightarrow> (Inl err, r3)
                   | (Inr b3, r3) \<Rightarrow>
                       (Inr \<lparr>Size = of_nat (be_uint b1), Type = fourcc_of b2,
                              ExtendedSize = of_nat (be_uint b3)\<rparr>, r3))
                else
                  (Inr \<lparr>Size = of_nat (be_uint b1), Type = fourcc_of b2,
                         ExtendedSize = 0\<rparr>, r2))))"

section \<open>The box locator\<close>

text \<open>
  The two loops take fuel: \<open>None\<close> is a run that has not returned within the given
  number of iterations. The loop variable \<^verbatim>\<open>offset\<close> is an \<^verbatim>\<open>int64\<close> and wraps.
\<close>

fun findHeader_loop ::
  "nat \<Rightarrow> config \<Rightarrow> BoxType \<Rightarrow> 64 word \<Rightarrow> 64 word \<Rightarrow> iostate \<Rightarrow> (Header result) option" where
  "findHeader_loop 0 cfg boxType limit offset r = None"
| "findHeader_loop (Suc n) cfg boxType limit offset r =
     (if limit <s 0 \<or> offset <s limit then
        (case readBoxHeader r of
           (Inl err, r1) \<Rightarrow> Some (Inl (Wrap ''[findHeader] failed reading box header'' err), r1)
         | (Inr h, r1) \<Rightarrow>
             (let r2 = (if verbose cfg then printf (FindHeader_inspecting (Type h) offset) r1 else r1)
              in if Type h = boxType then
                   Some (Inr h, if verbose cfg then printf (FindHeader_found (Type h) offset) r2 else r2)
                 else
                   (case seek (getBoxSize h - getHeaderSize h) SeekCurrent r2 of
                      (Inl err, r3) \<Rightarrow> Some (Inl (Wrap ''[findHeader] failed seeking after box'' err), r3)
                    | (Inr _, r3) \<Rightarrow> findHeader_loop n cfg boxType limit (offset + getBoxSize h) r3)))
      else Some (Inl (CannotFind boxType), r))"

definition findHeader ::
  "nat \<Rightarrow> config \<Rightarrow> BoxType \<Rightarrow> 64 word \<Rightarrow> iostate \<Rightarrow> (Header result) option" where
  "findHeader n cfg boxType limit r = findHeader_loop n cfg boxType limit 0 r"

fun forEachBox_loop ::
  "nat \<Rightarrow> config \<Rightarrow> 64 word \<Rightarrow> 64 word \<Rightarrow> (Header \<Rightarrow> iostate \<Rightarrow> (unit result) option)
     \<Rightarrow> 64 word \<Rightarrow> iostate \<Rightarrow> (unit result) option" where
  "forEachBox_loop 0 cfg limit start fn offset r = None"
| "forEachBox_loop (Suc n) cfg limit start fn offset r =
     (if limit <s 0 \<or> offset <s start + limit then
        (case seek offset SeekStart r of
           (Inl err, r1) \<Rightarrow> Some (Inl (Wrap ''[forEachBox] failed to seek to offset'' err), r1)
         | (Inr _, r1) \<Rightarrow>
             (case readBoxHeader r1 of
                (Inl err, r2) \<Rightarrow> Some (Inl (Wrap ''[forEachBox] failed reading box header'' err), r2)
              | (Inr h, r2) \<Rightarrow>
                  (let r3 = (if verbose cfg then printf (ForEachBox_inspecting (Type h) offset) r2 else r2)
                   in case fn h r3 of
                        None \<Rightarrow> None
                      | Some (Inl err, r4) \<Rightarrow> Some (Inl (Wrap ''[forEachBox] callback failed'' err), r4)
                      | Some (Inr _, r4) \<Rightarrow>
                          forEachBox_loop n cfg limit start fn (offset + getBoxSize h) r4)))
      else Some (Inr (), r))"

definition forEachBox ::
  "nat \<Rightarrow> config \<Rightarrow> 64 word \<Rightarrow> (Header \<Rightarrow> iostate \<Rightarrow> (unit result) option) \<Rightarrow> iostate
     \<Rightarrow> (unit result) option" where
  "forEachBox n cfg limit fn r =
     (case seek 0 SeekCurrent r of
        (Inl err, r1) \<Rightarrow>
          Some (Inl (Wrap ''[forEachBox] failed to get current offset with seek'' err), r1)
      | (Inr start, r1) \<Rightarrow> forEachBox_loop n cfg limit start fn start r1)"

section \<open>The codec patcher and the per-track handler\<close>

definition sampleEntryHandler :: "config \<Rightarrow> Header \<Rightarrow> iostate \<Rightarrow> unit result" where
  "sampleEntryHandler cfg h rw =
     (if bytes_of (Type h) = codecFrom cfg then
        (case seek (getHeaderTypeOffset h) SeekCurrent rw of
           (Inl err, rw1) \<Rightarrow> (Inl (Wrap ''[sampleEntryHandler] failed to seek back'' err), rw1)
         | (Inr _, rw1) \<Rightarrow>
             (case fileWrite (codecTo cfg) rw1 of
                (Inl err, rw2) \<Rightarrow>
                  (Inl (Wrap ''[sampleEntryHandler] failed to write box header type'' err), rw2)
              | (Inr _, rw2) \<Rightarrow> (Inr (), printf (Changed_codec (codecFrom cfg) (codecTo cfg)) rw2)))
      else (Inr (), rw))"

text \<open>
  \<open>orWrap m msg k\<close> is the Go idiom
  \<^verbatim>\<open>if x, err = m; err != nil { return fmt.Errorf(msg + ": %w", err) }\<close> followed by
  the rest \<open>k\<close> of the function.
\<close>

definition orWrap ::
  "('a result) option \<Rightarrow> string \<Rightarrow> ('a \<Rightarrow> iostate \<Rightarrow> ('b result) option) \<Rightarrow> ('b result) option" where
  "orWrap m msg k =
     (case m of
        None \<Rightarrow> None
      | Some (Inl err, r) \<Rightarrow> Some (Inl (Wrap msg err), r)
      | Some (Inr x, r) \<Rightarrow> k x r)"

definition trakHandler :: "nat \<Rightarrow> config \<Rightarrow> Header \<Rightarrow> iostate \<Rightarrow> (unit result) option" where
  "trakHandler n cfg trak rw =
     (if Type trak \<noteq> TrakBoxType then Some (Inr (), rw)
      else
        orWrap (findHeader n cfg MdiaBoxType (getBoxSize trak - getHeaderSize trak) rw)
          ''[trakHandler] failed finding box mdia'' (\<lambda>h rw.
        orWrap (findHeader n cfg MinfBoxType (getBoxSize h - getHeaderSize h) rw)
          ''[trakHandler] failed finding box minf'' (\<lambda>h rw.
        orWrap (findHeader n cfg StblBoxType (getBoxSize h - getHeaderSize h) rw)
          ''[trakHandler] failed finding box stbl'' (\<lambda>h rw.
        orWrap (findHeader n cfg StsdBoxType (getBoxSize h - getHeaderSize h) rw)
          ''[trakHandler] failed finding box stsd'' (\<lambda>h rw.
        orWrap (Some (seek 8 SeekCurrent rw))
          ''[trakHandler] failed to seek'' (\<lambda>_ rw.
        orWrap (forEachBox n cfg (getBoxSize h - getHeaderSize h)
                  (\<lambda>e rw. Some (sampleEntryHandler cfg e rw)) rw)
          ''[trakHandler] failed processing sample entry list'' (\<lambda>_ rw.
        Some (Inr (), rw))))))))"

section \<open>The file driver\<close>

text \<open>
  The file system maps a path to the bytes of the file. \<^verbatim>\<open>processFile\<close> opens the
  file, runs the traversal on it from offset 0 and closes it: the bytes of the file
  after the call are those of the open file when the traversal returned, also when it
  returned an error.
\<close>

record world =
  files :: "string \<rightharpoonup> byte list"
  console :: "event list"

definition traverse :: "nat \<Rightarrow> config \<Rightarrow> iostate \<Rightarrow> (unit result) option" where
  "traverse n cfg rw =
     orWrap (Some (seek 0 SeekStart rw))
       ''[processFile] failed to seek'' (\<lambda>_ rw.
     orWrap (findHeader n cfg MoovBoxType (- 1) rw)
       ''[processFile] failed finding box moov'' (\<lambda>h rw.
     orWrap (forEachBox n cfg (getBoxSize h - getHeaderSize h) (trakHandler n cfg) rw)
       ''[processFile] failed processing moov children'' (\<lambda>_ rw.
     Some (Inr (), rw))))"

definition processFile :: "nat \<Rightarrow> config \<Rightarrow> string \<Rightarrow> world \<Rightarrow> ((error + unit) \<times> world) option" where
  "processFile n cfg mp4file w =
     (case files w mp4file of
        None \<Rightarrow> Some (Inl (Wrap ''[processFile] cannot open file'' ENOENT), w)
      | Some bytes \<Rightarrow>
          (case traverse n cfg
                  \<lparr>content = bytes, pos = 0, printed = console w @ [Processing mp4file]\<rparr> of
             None \<Rightarrow> None
           | Some (res, rw) \<Rightarrow>
               Some (res, w\<lparr>files := (files w)(mp4file \<mapsto> content rw), console := printed rw\<rparr>)))"

section \<open>Entries that do not match\<close>

text \<open>
  Claim C6. For a sample entry whose four-byte type is not the source tag, the patcher
  returns success and leaves the open file as it was: the bytes, the cursor and the
  output are those of the state it was called in, so nothing has been written.
\<close>

theorem sampleEntryHandler_nonmatching:
  "bytes_of (Type h) \<noteq> codecFrom cfg \<Longrightarrow> sampleEntryHandler cfg h rw = (Inr (), rw)"
  by (simp add: sampleEntryHandler_def)

theorem sampleEntryHandler_nonmatching_witness:
  "bytes_of (Type \<lparr>Size = 8, Type = FourCC (CHR ''a'') (CHR ''v'') (CHR ''c'') (CHR ''1''), ExtendedSize = 0\<rparr>)
     \<noteq> codecFrom \<lparr>codecFrom = ''dvhe'', codecTo = ''dvh1'', verbose = False\<rparr>
   \<and> sampleEntryHandler \<lparr>codecFrom = ''dvhe'', codecTo = ''dvh1'', verbose = False\<rparr>
        \<lparr>Size = 8, Type = FourCC (CHR ''a'') (CHR ''v'') (CHR ''c'') (CHR ''1''), ExtendedSize = 0\<rparr>
        \<lparr>content = [CHR 0x00, CHR 0x00, CHR 0x00, CHR 0x08, CHR ''a'', CHR ''v'', CHR ''c'', CHR ''1''],
         pos = 8, printed = []\<rparr>
      = (Inr (), \<lparr>content = [CHR 0x00, CHR 0x00, CHR 0x00, CHR 0x08, CHR ''a'', CHR ''v'', CHR ''c'', CHR ''1''],
                   pos = 8, printed = []\<rparr>)"
  using sampleEntryHandler_nonmatching
    [of "\<lparr>Size = 8, Type = FourCC (CHR ''a'') (CHR ''v'') (CHR ''c'') (CHR ''1''), ExtendedSize = 0\<rparr>"
        "\<lparr>codecFrom = ''dvhe'', codecTo = ''dvh1'', verbose = False\<rparr>"
        "\<lparr>content = [CHR 0x00, CHR 0x00, CHR 0x00, CHR 0x08, CHR ''a'', CHR ''v'', CHR ''c'', CHR ''1''],
          pos = 8, printed = []\<rparr>"]
  by simp

end
